theory Spec2Isabelle
  imports Main
begin

section \<open>Python string primitives used by the parser\<close>

text \<open>
  Strings are lists of characters (code points below 256). \<open>isspace\<close> lists the code
  points below 256 that Python's \<open>str.strip()\<close> removes: tab, line feed, vertical tab,
  form feed, carriage return, the four separators 0x1C..0x1F, space, NEL and NBSP.
\<close>

definition isspace :: "char \<Rightarrow> bool" where
  "isspace c = (c \<in> set [CHR 0x09, CHR 0x0A, CHR 0x0B, CHR 0x0C, CHR 0x0D,
                           CHR 0x1C, CHR 0x1D, CHR 0x1E, CHR 0x1F, CHR 0x20,
                           CHR 0x85, CHR 0xA0])"

text \<open>\<open>s.strip(chars)\<close>: drop the leading and the trailing characters that satisfy \<open>p\<close>.\<close>

definition strip_where :: "(char \<Rightarrow> bool) \<Rightarrow> string \<Rightarrow> string" where
  "strip_where p s = rev (dropWhile p (rev (dropWhile p s)))"

definition strip :: "string \<Rightarrow> string" where
  "strip s = strip_where isspace s"

text \<open>\<open>sub in s\<close> on strings: \<open>sub\<close> occurs in \<open>s\<close> as a contiguous substring.\<close>

fun starts_with :: "string \<Rightarrow> string \<Rightarrow> bool" where
  "starts_with [] s = True"
| "starts_with (c # cs) [] = False"
| "starts_with (c # cs) (d # ds) = (c = d \<and> starts_with cs ds)"

fun contains :: "string \<Rightarrow> string \<Rightarrow> bool" where
  "contains sub [] = (sub = [])"
| "contains sub (c # cs) = (starts_with sub (c # cs) \<or> contains sub cs)"

text \<open>
  \<open>s.split(sep, 1)\<close> for a one-character separator that occurs in \<open>s\<close>: the part before
  the first occurrence and the part after it.
\<close>

definition split_once :: "char \<Rightarrow> string \<Rightarrow> string \<times> string" where
  "split_once sep s = (takeWhile (\<lambda>c. c \<noteq> sep) s, drop 1 (dropWhile (\<lambda>c. c \<noteq> sep) s))"

section \<open>Tag resolver: \<open>get_local_name\<close>\<close>

text \<open>
  An lxml tag is either a Python \<open>str\<close> (a real element) or some other object (for a
  comment or a processing instruction, the factory function). \<open>TObj r\<close> is a non-string
  tag whose \<open>str(tag)\<close> is \<open>r\<close>.
\<close>

datatype tag = TStr string | TObj string

fun is_str :: "tag \<Rightarrow> bool" where
  "is_str (TStr t) = True"
| "is_str (TObj r) = False"

text \<open>The \<open>str\<close> branch of \<open>get_local_name\<close>: \<open>tag.split('}', 1)[1] if '}' in tag else tag\<close>.\<close>

definition local_name_of :: "string \<Rightarrow> string" where
  "local_name_of t = (if CHR ''}'' \<in> set t then snd (split_once (CHR ''}'') t) else t)"

fun get_local_name :: "tag \<Rightarrow> string option" where
  "get_local_name (TStr t) = Some (local_name_of t)"
| "get_local_name (TObj tag_str) =
     (if contains ''<cyfunction'' tag_str \<or> contains ''<cython_function_or_method'' tag_str
      then None else Some tag_str)"

text \<open>
  The splitting rule in the words of the specification: everything after the last
  closing brace when there is one, the identifier itself otherwise.
\<close>

definition after_last_brace :: "string \<Rightarrow> string" where
  "after_last_brace t = rev (takeWhile (\<lambda>c. c \<noteq> CHR ''}'') (rev t))"

section \<open>The parsed document\<close>

text \<open>
  A node of the tree that \<open>etree.parse\<close> returns: its tag, its attributes
  (\<open>elem.get(k)\<close> looks a key up), its text (\<open>None\<close> when the element has none) and its
  children in document order. Comments and processing instructions are nodes whose tag is
  not a string. \<open>root.iter()\<close> yields the node and all its descendants in document order.
\<close>

datatype node =
  Node (tag: tag) (attrib: "(string \<times> string) list") (text_of: "string option")
       (children: "node list")

definition get :: "node \<Rightarrow> string \<Rightarrow> string option" where
  "get elem k = map_of (attrib elem) k"

fun iter :: "node \<Rightarrow> node list" where
  "iter (Node t a x cs) = Node t a x cs # concat (map iter cs)"

text \<open>\<open>root.nsmap\<close> maps a prefix (\<open>None\<close> for the default namespace) to a namespace URI.\<close>

type_synonym nsmap = "(string option \<times> string) list"

record document =
  root :: node
  nsmap :: nsmap

text \<open>
  The test the loops repeat: the tag is a string and its local name is \<open>n\<close>
  (\<open>if not isinstance(child.tag, str): continue\<close>, then
  \<open>get_local_name(child.tag) == n\<close>).
\<close>

definition name_is :: "string \<Rightarrow> node \<Rightarrow> bool" where
  "name_is n elem = (is_str (tag elem) \<and> get_local_name (tag elem) = Some n)"

text \<open>\<open>x.text.strip() if x.text else None\<close>.\<close>

definition stripped_text :: "node \<Rightarrow> string option" where
  "stripped_text elem =
     (case text_of elem of None \<Rightarrow> None
      | Some s \<Rightarrow> if s = [] then None else Some (strip s))"

section \<open>Context extractor\<close>

text \<open>
  \<open>context_data\<close> is the dictionary built for one context element. The keys
  \<open>instant\<close>, \<open>start_date\<close> and \<open>end_date\<close> are only ever read with \<open>.get\<close>, which
  returns \<open>None\<close> for a missing key, so a missing key and a key holding \<open>None\<close> are both
  the field value \<open>None\<close>.
\<close>

record context_data =
  period_type :: "string option"
  instant :: "string option"
  start_date :: "string option"
  end_date :: "string option"
  dimensions :: "string \<rightharpoonup> string"

definition init_context :: context_data where
  "init_context = \<lparr>period_type = None, instant = None, start_date = None,
                    end_date = None, dimensions = Map.empty\<rparr>"

text \<open>The loop over the period's children that remembers the last startDate and endDate.\<close>

definition find_dates :: "node list \<Rightarrow> node option \<times> node option" where
  "find_dates cs =
     fold (\<lambda>p_child (sd, ed).
             if \<not> is_str (tag p_child) then (sd, ed)
             else if get_local_name (tag p_child) = Some ''startDate'' then (Some p_child, ed)
             else if get_local_name (tag p_child) = Some ''endDate'' then (sd, Some p_child)
             else (sd, ed))
          cs (None, None)"

definition date_text :: "node option \<Rightarrow> string option" where
  "date_text d = (case d of None \<Rightarrow> None | Some p_child \<Rightarrow> stripped_text p_child)"

definition read_period :: "node \<Rightarrow> context_data \<Rightarrow> context_data" where
  "read_period elem cd =
     (case find (name_is ''period'') (children elem) of
        None \<Rightarrow> cd
      | Some period \<Rightarrow>
          (case find (name_is ''instant'') (children period) of
             Some inst \<Rightarrow> cd\<lparr>period_type := Some ''instant'', instant := stripped_text inst\<rparr>
           | None \<Rightarrow>
               (case find_dates (children period) of
                  (sd, ed) \<Rightarrow> cd\<lparr>period_type := Some ''duration'',
                                  start_date := date_text sd, end_date := date_text ed\<rparr>)))"

text \<open>
  The segment: every child named entity is searched for its first child named segment;
  a later entity with a segment replaces the segment found before.
\<close>

definition find_segment :: "node \<Rightarrow> node option" where
  "find_segment elem =
     fold (\<lambda>child segment.
             if name_is ''entity'' child
             then (case find (name_is ''segment'') (children child) of
                     Some e_child \<Rightarrow> Some e_child
                   | None \<Rightarrow> segment)
             else segment)
          (children elem) None"

text \<open>
  One pass of the loop over the segment's children. The tag is a string when
  \<open>get_local_name\<close> is called, and so is the dimension attribute, so both calls take
  the string branch \<open>local_name_of\<close>.
\<close>

definition add_dimension :: "node \<Rightarrow> (string \<rightharpoonup> string) \<Rightarrow> (string \<rightharpoonup> string)" where
  "add_dimension dim dims =
     (case tag dim of
        TObj r \<Rightarrow> dims
      | TStr t \<Rightarrow>
          if contains ''explicitMember'' (local_name_of t)
          then (case get dim ''dimension'' of
                  None \<Rightarrow> dims
                | Some dimension \<Rightarrow>
                    if dimension = [] then dims
                    else (case stripped_text dim of
                            None \<Rightarrow> dims
                          | Some member_value \<Rightarrow>
                              if member_value = [] then dims
                              else dims(local_name_of dimension \<mapsto> member_value)))
          else dims)"

definition read_dimensions :: "node \<Rightarrow> context_data \<Rightarrow> context_data" where
  "read_dimensions elem cd =
     (case find_segment elem of
        None \<Rightarrow> cd
      | Some segment \<Rightarrow>
          cd\<lparr>dimensions := fold add_dimension (children segment) (dimensions cd)\<rparr>)"

definition context_of :: "node \<Rightarrow> context_data" where
  "context_of elem = read_dimensions elem (read_period elem init_context)"

text \<open>One pass of the first loop over \<open>root.iter()\<close>: \<open>contexts[context_id] = context_data\<close>.\<close>

definition add_context :: "node \<Rightarrow> (string \<rightharpoonup> context_data) \<Rightarrow> (string \<rightharpoonup> context_data)" where
  "add_context elem contexts =
     (if \<not> is_str (tag elem) then contexts
      else if get_local_name (tag elem) \<noteq> Some ''context'' then contexts
      else (case get elem ''id'' of
              None \<Rightarrow> contexts
            | Some context_id \<Rightarrow>
                if context_id = [] then contexts
                else contexts(context_id \<mapsto> context_of elem)))"

definition extract_contexts :: "node \<Rightarrow> (string \<rightharpoonup> context_data)" where
  "extract_contexts r = fold add_context (iter r) Map.empty"

section \<open>Fact extractor\<close>

text \<open>
  The fact dictionary. Its period keys depend on the context's period type: the key
  \<open>date\<close> alone, or the keys \<open>start_date\<close> and \<open>end_date\<close>; \<open>period_fields\<close> records
  which keys the dictionary has, with their values.
\<close>

datatype period_fields =
  Date "string option"
| StartEnd "string option" "string option"

record fact =
  concept :: string
  prefixed_concept :: string
  val :: string
  unit :: "string option"
  context_id :: string
  fact_period_type :: "string option"
  period :: period_fields
  fact_dimensions :: "string \<rightharpoonup> string"

text \<open>The first prefix that \<open>root.nsmap\<close> binds to the namespace \<open>ns\<close>.\<close>

definition find_prefix :: "nsmap \<Rightarrow> string \<Rightarrow> string option" where
  "find_prefix m ns = (case find (\<lambda>(p, u). u = ns) m of None \<Rightarrow> None | Some (p, u) \<Rightarrow> p)"

text \<open>The local name and the prefixed name of a string tag.\<close>

definition resolve_name :: "nsmap \<Rightarrow> string \<Rightarrow> string \<times> string" where
  "resolve_name m t =
     (if CHR ''}'' \<in> set t
      then (case split_once (CHR ''}'') t of
              (ns0, local_name) \<Rightarrow>
                (case find_prefix m (strip_where (\<lambda>c. c = CHR ''{'') ns0) of
                   None \<Rightarrow> (local_name, local_name)
                 | Some p \<Rightarrow>
                     if p = [] then (local_name, local_name)
                     else (local_name, p @ '':'' @ local_name)))
      else (t, t))"

definition skip_names :: "string list" where
  "skip_names = [''context'', ''unit'', ''schemaRef'', ''roleRef'', ''arcroleRef'']"

text \<open>
  One pass of the second loop over \<open>root.iter()\<close>: \<open>None\<close> where the loop continues
  without a fact, \<open>Some\<close> of the fact it appends otherwise.
\<close>

definition fact_of :: "nsmap \<Rightarrow> (string \<rightharpoonup> context_data) \<Rightarrow> node \<Rightarrow> fact option" where
  "fact_of m contexts elem =
     (case tag elem of
        TObj r \<Rightarrow> None
      | TStr t \<Rightarrow>
          (case get elem ''contextRef'' of
             None \<Rightarrow> None
           | Some context_ref \<Rightarrow>
               if context_ref = [] then None
               else (case contexts context_ref of
                       None \<Rightarrow> None
                     | Some cd \<Rightarrow>
                         (case resolve_name m t of
                            (local_name, prefixed_name) \<Rightarrow>
                              if local_name \<in> set skip_names then None
                              else (case text_of elem of
                                      None \<Rightarrow> None
                                    | Some v \<Rightarrow>
                                        Some \<lparr>concept = local_name,
                                              prefixed_concept = prefixed_name,
                                              val = strip v,
                                              unit = get elem ''unitRef'',
                                              context_id = context_ref,
                                              fact_period_type = period_type cd,
                                              period =
                                                (if period_type cd = Some ''instant''
                                                 then Date (instant cd)
                                                 else StartEnd (start_date cd) (end_date cd)),
                                              fact_dimensions = dimensions cd\<rparr>)))))"

definition extract_facts :: "nsmap \<Rightarrow> (string \<rightharpoonup> context_data) \<Rightarrow> node \<Rightarrow> fact list" where
  "extract_facts m contexts r = List.map_filter (fact_of m contexts) (iter r)"

section \<open>Parsing one file\<close>

text \<open>
  \<open>etree.parse\<close> and the file system are outside the repository: \<open>loader\<close> says, for a
  path, whether \<open>etree.parse\<close> raises, and otherwise the parsed document (\<open>None\<close> when
  the recovering parser found no root element, so that \<open>tree.getroot()\<close> is \<open>None\<close>).
  The try block raises where \<open>etree.parse\<close> raises and where a method is called on a
  \<open>None\<close> root; the except clause turns every exception into the empty list. The
  \<open>verbose\<close> flag only prints and is left out.
\<close>

datatype error = OSError | XMLSyntaxError | AttributeError

type_synonym loader = "string \<Rightarrow> error + document option"

definition parse_body :: "loader \<Rightarrow> string \<Rightarrow> error + fact list" where
  "parse_body etree_parse file_path =
     (case etree_parse file_path of
        Inl e \<Rightarrow> Inl e
      | Inr None \<Rightarrow> Inl AttributeError
      | Inr (Some doc) \<Rightarrow>
          Inr (extract_facts (nsmap doc) (extract_contexts (root doc)) (root doc)))"

definition parse_xbrl_file :: "loader \<Rightarrow> string \<Rightarrow> fact list" where
  "parse_xbrl_file etree_parse file_path =
     (case parse_body etree_parse file_path of Inl e \<Rightarrow> [] | Inr facts \<Rightarrow> facts)"

section \<open>File discovery and the directory orchestrator\<close>










section \<open>Notions used to state the properties\<close>






text \<open>
  Both dictionaries of the parser are filled by a loop that either skips an element or
  assigns one key: \<open>store entry e m\<close> is one pass of such a loop, where \<open>entry e\<close> is
  the key and value that the element \<open>e\<close> assigns, if any. \<open>context_entry\<close> is the entry
  of the context loop and \<open>member_entry\<close> the entry of the loop over a segment's children.
\<close>

definition store :: "('a \<Rightarrow> ('k \<times> 'v) option) \<Rightarrow> 'a \<Rightarrow> ('k \<rightharpoonup> 'v) \<Rightarrow> ('k \<rightharpoonup> 'v)" where
  "store entry e m = (case entry e of None \<Rightarrow> m | Some (k, v) \<Rightarrow> m(k \<mapsto> v))"

definition context_entry :: "node \<Rightarrow> (string \<times> context_data) option" where
  "context_entry elem =
     (if name_is ''context'' elem
      then (case get elem ''id'' of
              None \<Rightarrow> None
            | Some k \<Rightarrow> if k = [] then None else Some (k, context_of elem))
      else None)"

definition member_entry :: "node \<Rightarrow> (string \<times> string) option" where
  "member_entry dim =
     (case tag dim of
        TObj r \<Rightarrow> None
      | TStr t \<Rightarrow>
          if contains ''explicitMember'' (local_name_of t)
          then (case get dim ''dimension'' of
                  None \<Rightarrow> None
                | Some d \<Rightarrow>
                    if d = [] then None
                    else (case text_of dim of
                            None \<Rightarrow> None
                          | Some s \<Rightarrow>
                              if strip s = [] then None
                              else Some (local_name_of d, strip s)))
          else None)"

section \<open>Example documents\<close>

text \<open>
  The document of the specification's example: one context \<open>C1\<close> with the instant
  \<open>2023-12-31\<close> and one fact \<open>us-gaap:Assets\<close> with the text \<open>1000\<close> and the unit
  \<open>USD\<close>.
\<close>

definition instant_context :: node where
  "instant_context =
     Node (TStr ''{http://www.xbrl.org/2003/instance}context'') [(''id'', ''C1'')] None
       [Node (TStr ''{http://www.xbrl.org/2003/instance}period'') [] None
          [Node (TStr ''{http://www.xbrl.org/2003/instance}instant'') [] (Some ''2023-12-31'') []]]"

definition assets_fact :: node where
  "assets_fact =
     Node (TStr ''{http://fasb.org/us-gaap/2023}Assets'')
       [(''contextRef'', ''C1''), (''unitRef'', ''USD'')] (Some ''1000'') []"

definition example_nsmap :: nsmap where
  "example_nsmap = [(None, ''http://www.xbrl.org/2003/instance''),
                    (Some ''us-gaap'', ''http://fasb.org/us-gaap/2023'')]"

definition xbrl_root :: "node list \<Rightarrow> document" where
  "xbrl_root cs =
     \<lparr>root = Node (TStr ''{http://www.xbrl.org/2003/instance}xbrl'') [] None cs,
      nsmap = example_nsmap\<rparr>"

definition example_doc :: document where
  "example_doc = xbrl_root [instant_context, assets_fact]"

text \<open>A fact whose context does not exist, and an element without a context reference.\<close>

definition dangling_fact :: node where
  "dangling_fact =
     Node (TStr ''{http://fasb.org/us-gaap/2023}Cash'') [(''contextRef'', ''C9'')] (Some ''5'') []"

definition plain_element :: node where
  "plain_element = Node (TStr ''{http://fasb.org/us-gaap/2023}Note'') [] (Some ''text'') []"

definition dangling_doc :: document where
  "dangling_doc = xbrl_root [instant_context, assets_fact, dangling_fact, plain_element]"

text \<open>
  A fact whose text is two spaces, a fact whose text is one no-break space, and a fact
  element without text.
\<close>

definition blank_fact :: node where
  "blank_fact =
     Node (TStr ''{http://fasb.org/us-gaap/2023}Assets'') [(''contextRef'', ''C1'')] (Some ''  '') []"

definition nbsp_fact :: node where
  "nbsp_fact =
     Node (TStr ''{http://fasb.org/us-gaap/2023}Cash'') [(''contextRef'', ''C1'')]
       (Some [CHR 0xA0]) []"

definition empty_fact :: node where
  "empty_fact =
     Node (TStr ''{http://fasb.org/us-gaap/2023}Assets'') [(''contextRef'', ''C1'')] None []"

definition blank_doc :: document where
  "blank_doc = xbrl_root [instant_context, blank_fact, nbsp_fact]"

text \<open>The loader of a directory in which every path parses to the document \<open>doc\<close>.\<close>

definition load :: "document \<Rightarrow> loader" where
  "load doc file_path = Inr (Some doc)"

text \<open>
  A context \<open>C1\<close> with a duration, and a document in which it follows the instant
  context of the same id.
\<close>

definition duration_period :: node where
  "duration_period =
     Node (TStr ''{http://www.xbrl.org/2003/instance}period'') [] None
       [Node (TStr ''{http://www.xbrl.org/2003/instance}startDate'') [] (Some ''2023-01-01'') [],
        Node (TStr ''{http://www.xbrl.org/2003/instance}endDate'') [] (Some ''2023-12-31'') []]"

definition duration_context :: node where
  "duration_context =
     Node (TStr ''{http://www.xbrl.org/2003/instance}context'') [(''id'', ''C1'')] None
       [duration_period]"

definition duplicate_doc :: document where
  "duplicate_doc = xbrl_root [instant_context, duration_context, assets_fact]"

definition duration_record :: fact where
  "duration_record =
     \<lparr>concept = ''Assets'', prefixed_concept = ''us-gaap:Assets'', val = ''1000'',
      unit = Some ''USD'', context_id = ''C1'', fact_period_type = Some ''duration'',
      period = StartEnd (Some ''2023-01-01'') (Some ''2023-12-31''),
      fact_dimensions = Map.empty\<rparr>"

text \<open>A context whose instant element has no text.\<close>

definition empty_instant :: node where
  "empty_instant = Node (TStr ''{http://www.xbrl.org/2003/instance}instant'') [] None []"

definition empty_instant_period :: node where
  "empty_instant_period =
     Node (TStr ''{http://www.xbrl.org/2003/instance}period'') [] None [empty_instant]"

definition empty_instant_context :: node where
  "empty_instant_context =
     Node (TStr ''{http://www.xbrl.org/2003/instance}context'') [(''id'', ''C1'')] None
       [empty_instant_period]"

definition empty_instant_doc :: document where
  "empty_instant_doc = xbrl_root [empty_instant_context, assets_fact]"

text \<open>A context without a period, whose segment names the dimension \<open>axis\<close> twice.\<close>

definition member :: "string \<Rightarrow> string \<Rightarrow> node" where
  "member d s =
     Node (TStr ''{http://xbrl.org/2006/xbrldi}explicitMember'') [(''dimension'', d)] (Some s) []"

definition example_segment :: node where
  "example_segment =
     Node (TStr ''{http://www.xbrl.org/2003/instance}segment'') [] None
       [member ''axis'' ''Retail'', member ''axis'' '' Online '', member ''{ns}Region'' ''EU'']"

definition segment_context :: node where
  "segment_context =
     Node (TStr ''{http://www.xbrl.org/2003/instance}context'') [(''id'', ''C1'')] None
       [Node (TStr ''{http://www.xbrl.org/2003/instance}entity'') [] None [example_segment]]"

definition segment_doc :: document where
  "segment_doc = xbrl_root [segment_context, assets_fact]"

definition segment_record :: fact where
  "segment_record =
     \<lparr>concept = ''Assets'', prefixed_concept = ''us-gaap:Assets'', val = ''1000'',
      unit = Some ''USD'', context_id = ''C1'', fact_period_type = None,
      period = StartEnd None None,
      fact_dimensions = [''axis'' \<mapsto> ''Online'', ''Region'' \<mapsto> ''EU'']\<rparr>"


definition assets_record :: fact where
  "assets_record =
     \<lparr>concept = ''Assets'', prefixed_concept = ''us-gaap:Assets'', val = ''1000'',
      unit = Some ''USD'', context_id = ''C1'', fact_period_type = Some ''instant'',
      period = Date (Some ''2023-12-31''), fact_dimensions = Map.empty\<rparr>"

section \<open>Properties of \<open>strip\<close>\<close>

lemma strip_where_Nil [simp]: "strip_where p [] = []"
  by (simp add: strip_where_def)

lemma strip_Nil [simp]: "strip [] = []"
  by (simp add: strip_def)






section \<open>Properties of the dictionary loops\<close>

lemma fold_store_other:
  "(\<forall>e\<in>set es. \<forall>v. entry e \<noteq> Some (k, v)) \<Longrightarrow> fold (store entry) es m k = m k"
  by (induction es arbitrary: m) (auto simp: store_def split: option.splits)

lemma fold_store_last:
  assumes "entry e = Some (k, v)" and "\<forall>x\<in>set post. \<forall>w. entry x \<noteq> Some (k, w)"
  shows "fold (store entry) (pre @ e # post) m k = Some v"
proof -
  have "fold (store entry) (pre @ e # post) m
        = fold (store entry) post (store entry e (fold (store entry) pre m))"
    by simp
  moreover have "fold (store entry) post (store entry e (fold (store entry) pre m)) k
        = store entry e (fold (store entry) pre m) k"
    using assms(2) by (rule fold_store_other)
  moreover have "store entry e (fold (store entry) pre m) k = Some v"
    using assms(1) by (simp add: store_def)
  ultimately show ?thesis by simp
qed

lemma fold_store_SomeD:
  "fold (store entry) es m k = Some v \<Longrightarrow> m k = Some v \<or> (\<exists>e\<in>set es. entry e = Some (k, v))"
proof (induction es arbitrary: m)
  case Nil
  then show ?case by simp
next
  case (Cons a es)
  from Cons.prems have "fold (store entry) es (store entry a m) k = Some v" by simp
  from Cons.IH [OF this] show ?case
    by (auto simp: store_def split: option.splits if_splits)
qed

lemma add_context_store: "add_context = store context_entry"
  by (rule ext, rule ext)
     (auto simp: add_context_def store_def context_entry_def name_is_def split: option.splits)

lemma add_dimension_store: "add_dimension = store member_entry"
  by (rule ext, rule ext)
     (auto simp: add_dimension_def store_def member_entry_def stripped_text_def
           split: option.splits tag.splits)

lemma context_entry_Some:
  "context_entry e = Some (k, cd) \<longleftrightarrow>
     name_is ''context'' e \<and> get e ''id'' = Some k \<and> k \<noteq> [] \<and> cd = context_of e"
  by (auto simp: context_entry_def split: option.splits)

section \<open>Properties of the fact loop\<close>

lemma fact_of_Some_iff:
  "fact_of m contexts elem = Some f \<longleftrightarrow>
     (\<exists>t k cd v. tag elem = TStr t \<and> get elem ''contextRef'' = Some k \<and> k \<noteq> []
        \<and> contexts k = Some cd \<and> fst (resolve_name m t) \<notin> set skip_names
        \<and> text_of elem = Some v
        \<and> f = \<lparr>concept = fst (resolve_name m t),
                prefixed_concept = snd (resolve_name m t),
                val = strip v,
                unit = get elem ''unitRef'',
                context_id = k,
                fact_period_type = period_type cd,
                period = (if period_type cd = Some ''instant''
                          then Date (instant cd)
                          else StartEnd (start_date cd) (end_date cd)),
                fact_dimensions = dimensions cd\<rparr>)"
  unfolding fact_of_def
  by (cases "resolve_name m (case tag elem of TStr t \<Rightarrow> t | TObj r \<Rightarrow> r)")
     (auto split: tag.splits option.splits prod.splits)

lemma set_map_filter_iff:
  "y \<in> set (List.map_filter g xs) \<longleftrightarrow> (\<exists>x\<in>set xs. g x = Some y)"
  by (induction xs) (auto split: option.splits)

lemma set_extract_facts:
  "set (extract_facts m contexts r) = {f. \<exists>e\<in>set (iter r). fact_of m contexts e = Some f}"
  by (auto simp: extract_facts_def set_map_filter_iff)

lemma set_parse_xbrl_file:
  "f \<in> set (parse_xbrl_file L p) \<longleftrightarrow>
     (\<exists>doc e. L p = Inr (Some doc) \<and> e \<in> set (iter (root doc))
        \<and> fact_of (nsmap doc) (extract_contexts (root doc)) e = Some f)"
  by (auto simp: parse_xbrl_file_def parse_body_def set_extract_facts split: sum.splits option.splits)

section \<open>Properties of the context extractor\<close>

lemma read_dimensions_period [simp]:
  "period_type (read_dimensions e cd) = period_type cd"
  "instant (read_dimensions e cd) = instant cd"
  "start_date (read_dimensions e cd) = start_date cd"
  "end_date (read_dimensions e cd) = end_date cd"
  by (simp_all add: read_dimensions_def split: option.splits)

lemma read_period_dimensions [simp]:
  "dimensions (read_period e cd) = dimensions cd"
  by (simp add: read_period_def split: option.splits prod.splits)

lemma context_of_dimensions:
  "dimensions (context_of e) =
     (case find_segment e of
        None \<Rightarrow> Map.empty
      | Some seg \<Rightarrow> fold (store member_entry) (children seg) Map.empty)"
  by (simp add: context_of_def read_dimensions_def init_context_def add_dimension_store
      split: option.splits)

lemma member_entry_Some:
  "member_entry dim = Some (D, M) \<longleftrightarrow>
     (\<exists>n d s. is_str (tag dim) \<and> get_local_name (tag dim) = Some n
        \<and> contains ''explicitMember'' n
        \<and> get dim ''dimension'' = Some d \<and> d \<noteq> [] \<and> get_local_name (TStr d) = Some D
        \<and> text_of dim = Some s \<and> strip s = M \<and> M \<noteq> [])"
  by (cases "tag dim") (auto simp: member_entry_def split: option.splits)

lemma find_dates_last:
  "find_dates cs = (find (name_is ''startDate'') (rev cs), find (name_is ''endDate'') (rev cs))"
proof (induction cs rule: rev_induct)
  case Nil
  then show ?case by (simp add: find_dates_def)
next
  case (snoc x xs)
  then show ?case
    by (auto simp: find_dates_def name_is_def)
qed


lemma context_of_instant:
  assumes "find (name_is ''period'') (children ctx) = Some p"
    and "find (name_is ''instant'') (children p) = Some i"
  shows "period_type (context_of ctx) = Some ''instant''"
    "instant (context_of ctx) = stripped_text i"
  using assms by (simp_all add: context_of_def read_period_def init_context_def)

lemma context_of_duration:
  assumes "find (name_is ''period'') (children ctx) = Some p"
    and "find (name_is ''instant'') (children p) = None"
  shows "period_type (context_of ctx) = Some ''duration''"
    "start_date (context_of ctx) = date_text (find (name_is ''startDate'') (rev (children p)))"
    "end_date (context_of ctx) = date_text (find (name_is ''endDate'') (rev (children p)))"
  using assms
  by (simp_all add: context_of_def read_period_def init_context_def find_dates_last)

lemma extract_contexts_last:
  assumes "iter r = pre @ later # post"
    and "name_is ''context'' later" and "get later ''id'' = Some k" and "k \<noteq> []"
    and "\<forall>x\<in>set post. \<not> (name_is ''context'' x \<and> get x ''id'' = Some k)"
  shows "extract_contexts r k = Some (context_of later)"
proof -
  have e: "context_entry later = Some (k, context_of later)"
    using assms(2-4) by (simp add: context_entry_Some)
  have "\<forall>x\<in>set post. \<forall>w. context_entry x \<noteq> Some (k, w)"
    using assms(5) by (auto simp: context_entry_Some)
  with e show ?thesis
    unfolding extract_contexts_def add_context_store assms(1)
    by (rule fold_store_last)
qed

lemma fact_of_context_fields:
  assumes "fact_of m contexts elem = Some f" and "contexts (context_id f) = Some cd"
  shows "fact_period_type f = period_type cd"
    and "period f = (if period_type cd = Some ''instant'' then Date (instant cd)
                     else StartEnd (start_date cd) (end_date cd))"
    and "fact_dimensions f = dimensions cd"
    and "get elem ''contextRef'' = Some (context_id f)"
  using assms by (auto simp: fact_of_Some_iff)



section \<open>Evaluation of the example documents\<close>

lemmas eval_defs =
  parse_xbrl_file_def parse_body_def extract_facts_def extract_contexts_def fact_of_def
  add_context_def context_of_def read_period_def read_dimensions_def find_segment_def
  find_dates_def date_text_def add_dimension_def init_context_def stripped_text_def
  name_is_def get_def resolve_name_def find_prefix_def skip_names_def split_once_def
  local_name_of_def strip_def strip_where_def isspace_def

lemmas example_defs =
  example_doc_def xbrl_root_def example_nsmap_def instant_context_def assets_fact_def
  dangling_doc_def dangling_fact_def plain_element_def blank_doc_def blank_fact_def
  nbsp_fact_def empty_fact_def

lemma example_doc_facts:
  "extract_facts (nsmap example_doc) (extract_contexts (root example_doc)) (root example_doc)
   = [assets_record]"
  by (simp add: eval_defs example_defs assets_record_def)

lemma dangling_doc_contexts:
  "extract_contexts (root dangling_doc) ''C9'' = None"
  by (simp add: eval_defs example_defs)

lemma dangling_doc_facts:
  "extract_facts (nsmap dangling_doc) (extract_contexts (root dangling_doc)) (root dangling_doc)
   = [assets_record]"
  by (simp add: eval_defs example_defs assets_record_def)

lemmas more_example_defs =
  load_def duration_period_def duration_context_def duplicate_doc_def duration_record_def
  empty_instant_def empty_instant_period_def empty_instant_context_def empty_instant_doc_def
  member_def example_segment_def segment_context_def segment_doc_def segment_record_def

lemma parse_xbrl_file_load:
  "parse_xbrl_file (load doc) p
   = extract_facts (nsmap doc) (extract_contexts (root doc)) (root doc)"
  by (simp add: parse_xbrl_file_def parse_body_def load_def)

lemma duplicate_doc_facts:
  "extract_facts (nsmap duplicate_doc) (extract_contexts (root duplicate_doc)) (root duplicate_doc)
   = [duration_record]"
  by (simp add: eval_defs example_defs more_example_defs)


lemma segment_doc_contexts:
  "extract_contexts (root segment_doc) ''C1'' = Some (context_of segment_context)"
  by (simp add: extract_contexts_def add_context_def name_is_def get_def local_name_of_def
      split_once_def example_defs more_example_defs)

lemma segment_doc_assets:
  "fact_of example_nsmap (extract_contexts (root segment_doc)) assets_fact = Some segment_record"
  by (simp add: eval_defs example_defs more_example_defs)

lemma example_doc_contexts:
  "extract_contexts (root example_doc) ''C1'' = Some (context_of instant_context)"
  by (simp add: extract_contexts_def add_context_def name_is_def get_def local_name_of_def
      split_once_def example_defs more_example_defs)

lemma example_doc_assets:
  "fact_of example_nsmap (extract_contexts (root example_doc)) assets_fact = Some assets_record"
  by (simp add: eval_defs example_defs assets_record_def)

lemma duplicate_doc_contexts:
  "extract_contexts (root duplicate_doc) ''C1'' = Some (context_of duration_context)"
  by (simp add: extract_contexts_def add_context_def name_is_def get_def local_name_of_def
      split_once_def example_defs more_example_defs)

lemma duplicate_doc_assets:
  "fact_of example_nsmap (extract_contexts (root duplicate_doc)) assets_fact = Some duration_record"
  by (simp add: eval_defs example_defs more_example_defs)


section \<open>Properties of the tag resolver\<close>

lemma split_once_append:
  "sep \<notin> set pre \<Longrightarrow> split_once sep (pre @ sep # post) = (pre, post)"
  by (induction pre) (auto simp: split_once_def)

lemma local_name_of_first:
  "CHR ''}'' \<notin> set pre \<Longrightarrow> local_name_of (pre @ CHR ''}'' # post) = post"
  by (simp add: local_name_of_def split_once_append)

lemma local_name_of_plain:
  "CHR ''}'' \<notin> set t \<Longrightarrow> local_name_of t = t"
  by (simp add: local_name_of_def)

text \<open>
  C2 (as stated, refuted): on the identifier \<open>{a}b}c\<close> the code keeps everything
  after the first closing brace, \<open>b}c\<close>, while the rule of the specification (after the
  last closing brace) gives \<open>c\<close>.
\<close>

theorem get_local_name_last_brace_counterexample:
  "get_local_name (TStr ''{a}b}c'') = Some ''b}c''
   \<and> after_last_brace ''{a}b}c'' = ''c''
   \<and> get_local_name (TStr ''{a}b}c'') \<noteq> Some (after_last_brace ''{a}b}c'')"
  by (simp add: local_name_of_def split_once_def after_last_brace_def)

text \<open>
  C2 (amended): for a string identifier \<open>get_local_name\<close> returns everything after the
  first closing brace when the identifier contains one, and the identifier unchanged
  otherwise. For a non-string identifier it returns the unresolvable sentinel \<open>None\<close>
  when the identifier's string form contains \<open><cyfunction\<close> or
  \<open><cython_function_or_method\<close> (the tags of comments and processing instructions),
  and the string form itself otherwise. It is a total function: no input raises.
\<close>

theorem get_local_name_first_brace:
  "(CHR ''}'' \<notin> set pre \<longrightarrow> get_local_name (TStr (pre @ CHR ''}'' # post)) = Some post)
   \<and> (CHR ''}'' \<notin> set t \<longrightarrow> get_local_name (TStr t) = Some t)
   \<and> (contains ''<cyfunction'' r \<or> contains ''<cython_function_or_method'' r
        \<longrightarrow> get_local_name (TObj r) = None)
   \<and> (\<not> contains ''<cyfunction'' q \<and> \<not> contains ''<cython_function_or_method'' q
        \<longrightarrow> get_local_name (TObj q) = Some q)"
  by (simp add: local_name_of_first local_name_of_plain)

theorem get_local_name_first_brace_witness:
  "CHR ''}'' \<notin> set ''{ns'' \<and> get_local_name (TStr ''{ns}b}c'') = Some ''b}c''
   \<and> CHR ''}'' \<notin> set ''Assets'' \<and> get_local_name (TStr ''Assets'') = Some ''Assets''
   \<and> contains ''<cyfunction'' ''<cyfunction Comment at 0x7f''
   \<and> get_local_name (TObj ''<cyfunction Comment at 0x7f'') = None
   \<and> \<not> contains ''<cyfunction'' ''b'' \<and> \<not> contains ''<cython_function_or_method'' ''b''
   \<and> get_local_name (TObj ''b'') = Some ''b''"
  using get_local_name_first_brace
    [of "''{ns''" "''b}c''" "''Assets''" "''<cyfunction Comment at 0x7f''" "''b''"]
  by simp

section \<open>Properties of file discovery\<close>












section \<open>Properties of the fact extractor\<close>




text \<open>
  C3: after a successful parse the body raises nothing, every emitted fact has a
  \<open>context_id\<close> that is a key of the document's context map, and an element whose
  \<open>contextRef\<close> attribute is absent or names no context in the map is skipped.
\<close>

theorem fact_context_id_in_contexts:
  "(L p = Inr (Some doc) \<longrightarrow>
        (\<exists>facts. parse_body L p = Inr facts)
      \<and> (\<forall>f\<in>set (parse_xbrl_file L p). context_id f \<in> dom (extract_contexts (root doc))))
   \<and> (get elem ''contextRef'' = None \<longrightarrow> fact_of m contexts elem = None)
   \<and> (get other ''contextRef'' = Some k \<and> contexts k = None
        \<longrightarrow> fact_of m contexts other = None)"
proof (intro conjI impI)
  assume l: "L p = Inr (Some doc)"
  then show "\<exists>facts. parse_body L p = Inr facts"
    by (simp add: parse_body_def)
  show "\<forall>f\<in>set (parse_xbrl_file L p). context_id f \<in> dom (extract_contexts (root doc))"
  proof
    fix f assume "f \<in> set (parse_xbrl_file L p)"
    with l obtain e where "fact_of (nsmap doc) (extract_contexts (root doc)) e = Some f"
      by (auto simp: set_parse_xbrl_file)
    then show "context_id f \<in> dom (extract_contexts (root doc))"
      by (auto simp: fact_of_Some_iff)
  qed
next
  assume "get elem ''contextRef'' = None"
  then show "fact_of m contexts elem = None"
    by (simp add: fact_of_def split: tag.splits)
next
  assume "get other ''contextRef'' = Some k \<and> contexts k = None"
  then show "fact_of m contexts other = None"
    by (simp add: fact_of_def split: tag.splits)
qed

theorem fact_context_id_in_contexts_witness:
  "load dangling_doc ''f.xbrl'' = Inr (Some dangling_doc)
   \<and> (\<exists>facts. parse_body (load dangling_doc) ''f.xbrl'' = Inr facts)
   \<and> parse_xbrl_file (load dangling_doc) ''f.xbrl'' = [assets_record]
   \<and> assets_record \<in> set (parse_xbrl_file (load dangling_doc) ''f.xbrl'')
   \<and> context_id assets_record \<in> dom (extract_contexts (root dangling_doc))
   \<and> get plain_element ''contextRef'' = None
   \<and> fact_of example_nsmap (extract_contexts (root dangling_doc)) plain_element = None
   \<and> get dangling_fact ''contextRef'' = Some ''C9''
   \<and> extract_contexts (root dangling_doc) ''C9'' = None
   \<and> fact_of example_nsmap (extract_contexts (root dangling_doc)) dangling_fact = None"
proof -
  have a: "load dangling_doc ''f.xbrl'' = Inr (Some dangling_doc)"
    by (simp add: load_def)
  have b: "get plain_element ''contextRef'' = None"
    by (simp add: get_def plain_element_def)
  have c: "get dangling_fact ''contextRef'' = Some ''C9''"
    by (simp add: get_def dangling_fact_def)
  have d: "parse_xbrl_file (load dangling_doc) ''f.xbrl'' = [assets_record]"
    by (simp add: parse_xbrl_file_load dangling_doc_facts)
  show ?thesis
    using fact_context_id_in_contexts
      [of "load dangling_doc" "''f.xbrl''" dangling_doc plain_element
          example_nsmap "extract_contexts (root dangling_doc)" dangling_fact "''C9''"]
      a b c d dangling_doc_contexts
    by auto
qed

text \<open>
  C5: the document with the one context \<open>C1\<close> (instant \<open>2023-12-31\<close>) and the one fact
  \<open>us-gaap:Assets\<close> (context \<open>C1\<close>, text \<open>1000\<close>, unit \<open>USD\<close>) yields exactly one
  fact, with the fields of the specification and no dimensions.
\<close>

theorem example_document_fact:
  "parse_xbrl_file (load example_doc) file_path
   = [\<lparr>concept = ''Assets'', prefixed_concept = ''us-gaap:Assets'', val = ''1000'',
       unit = Some ''USD'', context_id = ''C1'', fact_period_type = Some ''instant'',
       period = Date (Some ''2023-12-31''), fact_dimensions = Map.empty\<rparr>]"
  using example_doc_facts by (simp add: parse_xbrl_file_load assets_record_def)

section \<open>Properties of the extracted contexts\<close>

text \<open>
  C6: after a successful parse nothing is raised; when a context element with the id
  \<open>k\<close> is followed in document order by no other context element with that id (so it
  is the later one of any that share the id), the context stored under \<open>k\<close> is the one
  built from it, and every emitted fact whose \<open>context_id\<close> is \<open>k\<close> carries its period
  type, its period fields and its dimensions.
\<close>

theorem later_context_wins:
  "L p = Inr (Some doc) \<and> iter (root doc) = pre @ later # post
   \<and> name_is ''context'' later \<and> get later ''id'' = Some k \<and> k \<noteq> []
   \<and> (\<forall>x\<in>set post. \<not> (name_is ''context'' x \<and> get x ''id'' = Some k))
   \<longrightarrow> (\<exists>facts. parse_body L p = Inr facts)
     \<and> extract_contexts (root doc) k = Some (context_of later)
     \<and> (f \<in> set (parse_xbrl_file L p) \<and> context_id f = k \<longrightarrow>
           fact_period_type f = period_type (context_of later)
         \<and> period f = (if period_type (context_of later) = Some ''instant''
                        then Date (instant (context_of later))
                        else StartEnd (start_date (context_of later)) (end_date (context_of later)))
         \<and> fact_dimensions f = dimensions (context_of later))"
proof (intro impI, elim conjE)
  assume l: "L p = Inr (Some doc)" and i: "iter (root doc) = pre @ later # post"
    and c: "name_is ''context'' later" "get later ''id'' = Some k" "k \<noteq> []"
    and n: "\<forall>x\<in>set post. \<not> (name_is ''context'' x \<and> get x ''id'' = Some k)"
  have s: "extract_contexts (root doc) k = Some (context_of later)"
    using i c n by (rule extract_contexts_last)
  have b: "\<exists>facts. parse_body L p = Inr facts"
    using l by (simp add: parse_body_def)
  have "fact_period_type f = period_type (context_of later)
         \<and> period f = (if period_type (context_of later) = Some ''instant''
                        then Date (instant (context_of later))
                        else StartEnd (start_date (context_of later)) (end_date (context_of later)))
         \<and> fact_dimensions f = dimensions (context_of later)"
    if "f \<in> set (parse_xbrl_file L p)" and "context_id f = k"
  proof -
    from that(1) l obtain e where "fact_of (nsmap doc) (extract_contexts (root doc)) e = Some f"
      by (auto simp: set_parse_xbrl_file)
    moreover have "extract_contexts (root doc) (context_id f) = Some (context_of later)"
      using s that(2) by simp
    ultimately show ?thesis
      using fact_of_context_fields(1-3) by blast
  qed
  with s b show "(\<exists>facts. parse_body L p = Inr facts)
     \<and> extract_contexts (root doc) k = Some (context_of later)
     \<and> (f \<in> set (parse_xbrl_file L p) \<and> context_id f = k \<longrightarrow>
           fact_period_type f = period_type (context_of later)
         \<and> period f = (if period_type (context_of later) = Some ''instant''
                        then Date (instant (context_of later))
                        else StartEnd (start_date (context_of later)) (end_date (context_of later)))
         \<and> fact_dimensions f = dimensions (context_of later))"
    by blast
qed

theorem later_context_wins_witness:
  "get instant_context ''id'' = Some ''C1'' \<and> get duration_context ''id'' = Some ''C1''
   \<and> period_type (context_of instant_context) = Some ''instant''
   \<and> period_type (context_of duration_context) = Some ''duration''
   \<and> iter (root duplicate_doc)
       = take 4 (iter (root duplicate_doc)) @ duration_context # drop 5 (iter (root duplicate_doc))
   \<and> instant_context \<in> set (take 4 (iter (root duplicate_doc)))
   \<and> extract_contexts (root duplicate_doc) ''C1'' = Some (context_of duration_context)
   \<and> duration_record \<in> set (parse_xbrl_file (load duplicate_doc) ''f.xbrl'')
   \<and> fact_period_type duration_record = Some ''duration''
   \<and> period duration_record = StartEnd (Some ''2023-01-01'') (Some ''2023-12-31'')"
proof -
  have a: "load duplicate_doc ''f.xbrl'' = Inr (Some duplicate_doc)"
    by (simp add: load_def)
  have b: "iter (root duplicate_doc)
       = take 4 (iter (root duplicate_doc)) @ duration_context # drop 5 (iter (root duplicate_doc))"
    by (simp add: example_defs more_example_defs)
  have c: "name_is ''context'' duration_context" "get duration_context ''id'' = Some ''C1''"
    "get instant_context ''id'' = Some ''C1''"
    by (simp_all add: eval_defs example_defs more_example_defs)
  have d: "\<forall>x\<in>set (drop 5 (iter (root duplicate_doc))).
             \<not> (name_is ''context'' x \<and> get x ''id'' = Some ''C1'')"
    by (simp add: eval_defs example_defs more_example_defs)
  have e: "duration_record \<in> set (parse_xbrl_file (load duplicate_doc) ''f.xbrl'')"
    "context_id duration_record = ''C1''"
    by (simp_all add: parse_xbrl_file_load duplicate_doc_facts duration_record_def)
  have g: "period_type (context_of instant_context) = Some ''instant''"
    "period_type (context_of duration_context) = Some ''duration''"
    "instant_context \<in> set (take 4 (iter (root duplicate_doc)))"
    by (simp_all add: eval_defs example_defs more_example_defs)
  have h: "fact_period_type duration_record = Some ''duration''"
    "period duration_record = StartEnd (Some ''2023-01-01'') (Some ''2023-12-31'')"
    by (simp_all add: duration_record_def)
  have "''C1'' \<noteq> ([] :: string)" by simp
  with a b c d e g h show ?thesis
    using later_context_wins
      [of "load duplicate_doc" "''f.xbrl''" duplicate_doc "take 4 (iter (root duplicate_doc))"
          duration_context "drop 5 (iter (root duplicate_doc))" "''C1''" duration_record]
    by blast
qed


text \<open>
  C8 (as stated, refuted): the first child of the segment is an \<open>explicitMember\<close> with
  the dimension \<open>axis\<close> and the text \<open>Retail\<close>, but a later child names the same
  dimension, and the context and the fact that references it hold \<open>axis = Online\<close>.
\<close>

theorem repeated_dimension_counterexample:
  "find_segment segment_context = Some example_segment
   \<and> children example_segment
       = [member ''axis'' ''Retail'', member ''axis'' '' Online '', member ''{ns}Region'' ''EU'']
   \<and> get_local_name (tag (member ''axis'' ''Retail'')) = Some ''explicitMember''
   \<and> get (member ''axis'' ''Retail'') ''dimension'' = Some ''axis''
   \<and> get_local_name (TStr ''axis'') = Some ''axis''
   \<and> text_of (member ''axis'' ''Retail'') = Some ''Retail''
   \<and> strip ''Retail'' = ''Retail''
   \<and> dimensions (context_of segment_context) ''axis'' = Some ''Online''
   \<and> fact_dimensions (hd (parse_xbrl_file (load segment_doc) ''f.xbrl'')) ''axis'' = Some ''Online''"
  by (simp add: eval_defs example_defs more_example_defs)

text \<open>
  C8 (amended): when the segment of a context holds a direct child whose local name
  contains \<open>explicitMember\<close>, whose \<open>dimension\<close> attribute is present, not empty and
  resolves to the local name \<open>D\<close>, and whose text trims to the non-empty \<open>M\<close>, and no
  later child of the segment records an entry for \<open>D\<close>, then \<open>D\<close> maps to \<open>M\<close> in the
  context's dimensions and in the dimensions of every fact referencing that context.
  Conversely every entry of a context's dimensions comes from such a child: it is
  recorded only when the dimension attribute and a non-empty member value are present.
\<close>

theorem dimension_recorded:
  "(find_segment ctx = Some seg \<and> children seg = pre @ dim # post
     \<and> is_str (tag dim) \<and> get_local_name (tag dim) = Some n \<and> contains ''explicitMember'' n
     \<and> get dim ''dimension'' = Some d \<and> d \<noteq> [] \<and> get_local_name (TStr d) = Some D
     \<and> text_of dim = Some s \<and> strip s = M \<and> M \<noteq> []
     \<and> (\<forall>x\<in>set post. \<forall>w. member_entry x \<noteq> Some (D, w))
    \<longrightarrow> dimensions (context_of ctx) D = Some M
      \<and> (contexts k = Some (context_of ctx) \<and> get elem ''contextRef'' = Some k
          \<and> fact_of m contexts elem = Some f
          \<longrightarrow> fact_dimensions f D = Some M))
   \<and> (dimensions (context_of c2) D2 = Some M2 \<longrightarrow>
        (\<exists>seg2 dim2 n2 d2 s2.
            find_segment c2 = Some seg2 \<and> dim2 \<in> set (children seg2)
          \<and> is_str (tag dim2) \<and> get_local_name (tag dim2) = Some n2
          \<and> contains ''explicitMember'' n2
          \<and> get dim2 ''dimension'' = Some d2 \<and> d2 \<noteq> [] \<and> get_local_name (TStr d2) = Some D2
          \<and> text_of dim2 = Some s2 \<and> strip s2 = M2 \<and> M2 \<noteq> []))"
proof (intro conjI impI)
  assume h: "find_segment ctx = Some seg \<and> children seg = pre @ dim # post
     \<and> is_str (tag dim) \<and> get_local_name (tag dim) = Some n \<and> contains ''explicitMember'' n
     \<and> get dim ''dimension'' = Some d \<and> d \<noteq> [] \<and> get_local_name (TStr d) = Some D
     \<and> text_of dim = Some s \<and> strip s = M \<and> M \<noteq> []
     \<and> (\<forall>x\<in>set post. \<forall>w. member_entry x \<noteq> Some (D, w))"
  then have e: "member_entry dim = Some (D, M)"
    unfolding member_entry_Some by blast
  from h have p: "\<forall>x\<in>set post. \<forall>w. member_entry x \<noteq> Some (D, w)" by blast
  have "fold (store member_entry) (pre @ dim # post) Map.empty D = Some M"
    using e p by (rule fold_store_last)
  with h show r: "dimensions (context_of ctx) D = Some M"
    by (simp add: context_of_dimensions)
  {
    assume a: "contexts k = Some (context_of ctx) \<and> get elem ''contextRef'' = Some k
          \<and> fact_of m contexts elem = Some f"
    then have "context_id f = k" by (auto simp: fact_of_Some_iff)
    with a have "fact_dimensions f = dimensions (context_of ctx)"
      using fact_of_context_fields(3) [of m contexts elem f "context_of ctx"] by auto
    with r show "fact_dimensions f D = Some M" by simp
  }
next
  assume a: "dimensions (context_of c2) D2 = Some M2"
  then obtain seg2 where s: "find_segment c2 = Some seg2"
    and f: "fold (store member_entry) (children seg2) Map.empty D2 = Some M2"
    by (auto simp: context_of_dimensions split: option.splits)
  from fold_store_SomeD [OF f] obtain dim2 where
    "dim2 \<in> set (children seg2)" "member_entry dim2 = Some (D2, M2)"
    by auto
  with s show "\<exists>seg2 dim2 n2 d2 s2.
            find_segment c2 = Some seg2 \<and> dim2 \<in> set (children seg2)
          \<and> is_str (tag dim2) \<and> get_local_name (tag dim2) = Some n2
          \<and> contains ''explicitMember'' n2
          \<and> get dim2 ''dimension'' = Some d2 \<and> d2 \<noteq> [] \<and> get_local_name (TStr d2) = Some D2
          \<and> text_of dim2 = Some s2 \<and> strip s2 = M2 \<and> M2 \<noteq> []"
    unfolding member_entry_Some by blast
qed

theorem dimension_recorded_witness:
  "find_segment segment_context = Some example_segment
   \<and> children example_segment
       = [member ''axis'' ''Retail''] @ member ''axis'' '' Online '' # [member ''{ns}Region'' ''EU'']
   \<and> get_local_name (tag (member ''axis'' '' Online '')) = Some ''explicitMember''
   \<and> get (member ''axis'' '' Online '') ''dimension'' = Some ''axis''
   \<and> get_local_name (TStr ''axis'') = Some ''axis''
   \<and> text_of (member ''axis'' '' Online '') = Some '' Online ''
   \<and> strip '' Online '' = ''Online''
   \<and> dimensions (context_of segment_context) ''axis'' = Some ''Online''
   \<and> fact_of example_nsmap (extract_contexts (root segment_doc)) assets_fact = Some segment_record
   \<and> fact_dimensions segment_record ''axis'' = Some ''Online''
   \<and> dimensions (context_of segment_context) ''Region'' = Some ''EU''
   \<and> (\<exists>seg2 dim2 n2 d2 s2.
            find_segment segment_context = Some seg2 \<and> dim2 \<in> set (children seg2)
          \<and> is_str (tag dim2) \<and> get_local_name (tag dim2) = Some n2
          \<and> contains ''explicitMember'' n2
          \<and> get dim2 ''dimension'' = Some d2 \<and> d2 \<noteq> []
          \<and> get_local_name (TStr d2) = Some ''Region''
          \<and> text_of dim2 = Some s2 \<and> strip s2 = ''EU'' \<and> ''EU'' \<noteq> [])"
proof -
  have a: "find_segment segment_context = Some example_segment"
    by (simp add: find_segment_def name_is_def local_name_of_def split_once_def
        segment_context_def example_segment_def)
  have b: "children example_segment
       = [member ''axis'' ''Retail''] @ member ''axis'' '' Online '' # [member ''{ns}Region'' ''EU'']"
    by (simp add: example_segment_def)
  have c: "is_str (tag (member ''axis'' '' Online ''))"
    "get_local_name (tag (member ''axis'' '' Online '')) = Some ''explicitMember''"
    "contains ''explicitMember'' ''explicitMember''"
    "get (member ''axis'' '' Online '') ''dimension'' = Some ''axis''"
    "''axis'' \<noteq> []"
    "get_local_name (TStr ''axis'') = Some ''axis''"
    "text_of (member ''axis'' '' Online '') = Some '' Online ''"
    "strip '' Online '' = ''Online''"
    "''Online'' \<noteq> []"
    by (simp_all add: member_def get_def local_name_of_def split_once_def strip_def
        strip_where_def isspace_def)
  have d: "\<forall>x\<in>set [member ''{ns}Region'' ''EU'']. \<forall>w. member_entry x \<noteq> Some (''axis'', w)"
    by (simp add: member_entry_def member_def get_def local_name_of_def split_once_def)
  have e: "get assets_fact ''contextRef'' = Some ''C1''"
    by (simp add: get_def assets_fact_def)
  have g: "dimensions (context_of segment_context) ''Region'' = Some ''EU''"
    by (simp add: eval_defs example_defs more_example_defs)
  show ?thesis
    using dimension_recorded
      [of segment_context example_segment "[member ''axis'' ''Retail'']"
          "member ''axis'' '' Online ''" "[member ''{ns}Region'' ''EU'']"
          "''explicitMember''" "''axis''" "''axis''" "'' Online ''" "''Online''"
          "extract_contexts (root segment_doc)" "''C1''" assets_fact example_nsmap segment_record
          segment_context "''Region''" "''EU''"]
      a b c d e g segment_doc_contexts segment_doc_assets
    by blast
qed

text \<open>
  C9 (as stated, refuted): the period of the context has an instant child without text;
  the fact that references the context has the period type \<open>instant\<close>, but its date
  field is null, not populated.
\<close>

theorem empty_instant_counterexample:
  "find (name_is ''period'') (children empty_instant_context) = Some empty_instant_period
   \<and> find (name_is ''instant'') (children empty_instant_period) = Some empty_instant
   \<and> map fact_period_type (parse_xbrl_file (load empty_instant_doc) ''f.xbrl'') = [Some ''instant'']
   \<and> map period (parse_xbrl_file (load empty_instant_doc) ''f.xbrl'') = [Date None]"
  by (simp add: eval_defs example_defs more_example_defs)

text \<open>
  C9 (amended): when the first period child of a context element has an instant child,
  the stored period type is \<open>instant\<close> and every fact referencing the context carries a
  date field that is the trimmed text of the first instant child, or null when that
  child has no text. When the period child has no instant child, the stored period type
  is \<open>duration\<close> and the referencing facts carry \<open>start_date\<close> and \<open>end_date\<close>: the
  trimmed text of the last startDate child and of the last endDate child, each null
  when the child is missing or has no text.
\<close>

theorem period_of_context:
  "(find (name_is ''period'') (children ctx) = Some p
     \<and> find (name_is ''instant'') (children p) = Some i \<longrightarrow>
       period_type (context_of ctx) = Some ''instant''
     \<and> (contexts k = Some (context_of ctx) \<and> get elem ''contextRef'' = Some k
         \<and> fact_of m contexts elem = Some f \<longrightarrow>
           fact_period_type f = Some ''instant''
         \<and> period f = Date (case text_of i of None \<Rightarrow> None
                             | Some s \<Rightarrow> if s = [] then None else Some (strip s))))
   \<and> (find (name_is ''period'') (children dctx) = Some dp
     \<and> find (name_is ''instant'') (children dp) = None \<longrightarrow>
       period_type (context_of dctx) = Some ''duration''
     \<and> (dcontexts dk = Some (context_of dctx) \<and> get delem ''contextRef'' = Some dk
         \<and> fact_of dm dcontexts delem = Some df \<longrightarrow>
           fact_period_type df = Some ''duration''
         \<and> period df = StartEnd (date_text (find (name_is ''startDate'') (rev (children dp))))
                                 (date_text (find (name_is ''endDate'') (rev (children dp))))))"
proof (intro conjI impI)
  assume "find (name_is ''period'') (children ctx) = Some p
     \<and> find (name_is ''instant'') (children p) = Some i"
  then have a: "period_type (context_of ctx) = Some ''instant''"
    "instant (context_of ctx) = stripped_text i"
    using context_of_instant by blast+
  show "period_type (context_of ctx) = Some ''instant''" by (rule a)
  {
    assume h: "contexts k = Some (context_of ctx) \<and> get elem ''contextRef'' = Some k
         \<and> fact_of m contexts elem = Some f"
    then have "context_id f = k" by (auto simp: fact_of_Some_iff)
    with h have "fact_period_type f = period_type (context_of ctx)"
      "period f = (if period_type (context_of ctx) = Some ''instant''
                   then Date (instant (context_of ctx))
                   else StartEnd (start_date (context_of ctx)) (end_date (context_of ctx)))"
      using fact_of_context_fields(1,2) [of m contexts elem f "context_of ctx"] by auto
    then show "fact_period_type f = Some ''instant''"
      "period f = Date (case text_of i of None \<Rightarrow> None
                             | Some s \<Rightarrow> if s = [] then None else Some (strip s))"
      by (simp_all add: a stripped_text_def)
  }
next
  assume "find (name_is ''period'') (children dctx) = Some dp
     \<and> find (name_is ''instant'') (children dp) = None"
  then have a: "period_type (context_of dctx) = Some ''duration''"
    "start_date (context_of dctx) = date_text (find (name_is ''startDate'') (rev (children dp)))"
    "end_date (context_of dctx) = date_text (find (name_is ''endDate'') (rev (children dp)))"
    using context_of_duration by blast+
  show "period_type (context_of dctx) = Some ''duration''" by (rule a)
  {
    assume h: "dcontexts dk = Some (context_of dctx) \<and> get delem ''contextRef'' = Some dk
         \<and> fact_of dm dcontexts delem = Some df"
    then have "context_id df = dk" by (auto simp: fact_of_Some_iff)
    with h have "fact_period_type df = period_type (context_of dctx)"
      "period df = (if period_type (context_of dctx) = Some ''instant''
                   then Date (instant (context_of dctx))
                   else StartEnd (start_date (context_of dctx)) (end_date (context_of dctx)))"
      using fact_of_context_fields(1,2) [of dm dcontexts delem df "context_of dctx"] by auto
    then show "fact_period_type df = Some ''duration''"
      "period df = StartEnd (date_text (find (name_is ''startDate'') (rev (children dp))))
                            (date_text (find (name_is ''endDate'') (rev (children dp))))"
      by (simp_all add: a)
  }
qed


theorem period_of_context_witness:
  "find (name_is ''period'') (children instant_context) = Some (hd (children instant_context))
   \<and> find (name_is ''instant'') (children (hd (children instant_context)))
       = Some (hd (children (hd (children instant_context))))
   \<and> text_of (hd (children (hd (children instant_context)))) = Some ''2023-12-31''
   \<and> period_type (context_of instant_context) = Some ''instant''
   \<and> fact_of example_nsmap (extract_contexts (root example_doc)) assets_fact = Some assets_record
   \<and> fact_period_type assets_record = Some ''instant''
   \<and> period assets_record
       = Date (case text_of (hd (children (hd (children instant_context)))) of
                 None \<Rightarrow> None
               | Some s \<Rightarrow> if s = [] then None else Some (strip s))
   \<and> find (name_is ''period'') (children duration_context) = Some duration_period
   \<and> find (name_is ''instant'') (children duration_period) = None
   \<and> period_type (context_of duration_context) = Some ''duration''
   \<and> fact_of example_nsmap (extract_contexts (root duplicate_doc)) assets_fact
       = Some duration_record
   \<and> fact_period_type duration_record = Some ''duration''
   \<and> period duration_record
       = StartEnd (date_text (find (name_is ''startDate'') (rev (children duration_period))))
                  (date_text (find (name_is ''endDate'') (rev (children duration_period))))"
proof -
  have a: "find (name_is ''period'') (children instant_context) = Some (hd (children instant_context))"
    "find (name_is ''instant'') (children (hd (children instant_context)))
       = Some (hd (children (hd (children instant_context))))"
    "text_of (hd (children (hd (children instant_context)))) = Some ''2023-12-31''"
    by (simp_all add: name_is_def local_name_of_def split_once_def instant_context_def)
  have b: "find (name_is ''period'') (children duration_context) = Some duration_period"
    "find (name_is ''instant'') (children duration_period) = None"
    by (simp_all add: name_is_def local_name_of_def split_once_def duration_context_def
        duration_period_def)
  have c: "get assets_fact ''contextRef'' = Some ''C1''"
    by (simp add: get_def assets_fact_def)
  show ?thesis
    using period_of_context
      [of instant_context "hd (children instant_context)"
          "hd (children (hd (children instant_context)))"
          "extract_contexts (root example_doc)" "''C1''" assets_fact example_nsmap assets_record
          duration_context duration_period
          "extract_contexts (root duplicate_doc)" "''C1''" assets_fact example_nsmap
          duration_record]
      a b c example_doc_contexts example_doc_assets duplicate_doc_contexts duplicate_doc_assets
    by blast
qed



section \<open>Properties of the directory orchestrator\<close>



end
